theory Spec2Isabelle
  imports Main
begin

section \<open>The SleepIQ SDK facade (src/index.ts)\<close>

text \<open>
  The repository is one generated class, \<open>SDK\<close>, whose methods hand their arguments to an
  engine object (\<open>APICore\<close> of the package \<open>api/dist/core\<close>). The engine is a dependency:
  its code is not in the repository. The facade is therefore modelled over an arbitrary
  engine, given as a record of functions, and over an explicit store, because the facade
  and its engine are objects that are shared by reference and mutated in place.
\<close>

subsection \<open>Values, objects and the store\<close>

text \<open>The JavaScript values that callers pass as bodies, metadata, credentials and options.\<close>

datatype jsvalue =
    JStr string
  | JNum int
  | JBool bool
  | JNull
  | JArr "jsvalue list"
  | JObj "(string \<times> jsvalue) list"

type_synonym addr = nat

text \<open>
  The engine, as the facade uses it: its constructor and the four methods that
  \<open>index.ts\<close> calls. \<open>'s\<close> is the parsed API description (\<open>Oas.init(definition)\<close>),
  \<open>'c\<close> the engine object's state, and a promise returned by \<open>fetch\<close> is its outcome:
  \<open>Inl\<close> a rejection, \<open>Inr\<close> a resolution. The arguments after path and verb are kept
  as the positional list the call site writes. The three setters are taken as total
  updates of the engine object.
\<close>

record ('s, 'c, 'e, 'r) APICore =
  new_APICore :: "'s \<Rightarrow> string \<Rightarrow> 'c"
  setConfig :: "jsvalue \<Rightarrow> 'c \<Rightarrow> 'c"
  setAuth :: "jsvalue list \<Rightarrow> 'c \<Rightarrow> 'c"
  setServer :: "string \<Rightarrow> jsvalue \<Rightarrow> 'c \<Rightarrow> 'c"
  fetch :: "string \<Rightarrow> string \<Rightarrow> jsvalue list \<Rightarrow> 'c \<Rightarrow> ('e + 'r) \<times> 'c"

text \<open>The two fields of class \<open>SDK\<close>; \<open>core\<close> is a reference to the engine object.\<close>

record 's SDK =
  spec :: 's
  core :: addr

text \<open>Every call that reaches an engine object, in the order the calls are made.\<close>

datatype call =
    NewCore addr string
  | SetConfig addr jsvalue
  | SetAuth addr "jsvalue list"
  | SetServer addr string jsvalue
  | Fetch addr string string "jsvalue list"

record ('s, 'c) heap =
  sdks :: "addr \<Rightarrow> 's SDK"
  cores :: "addr \<Rightarrow> 'c"
  fresh :: addr
  calls :: "call list"

text \<open>What a method returns when it returns no promise: nothing, or an object reference.\<close>

datatype retval = Undefined | Object addr

subsection \<open>Method calls on the engine object\<close>

definition core_setConfig ::
  "('s, 'c, 'e, 'r) APICore \<Rightarrow> ('s, 'c) heap \<Rightarrow> addr \<Rightarrow> jsvalue \<Rightarrow> ('s, 'c) heap" where
  "core_setConfig E h c cfg =
     h\<lparr>cores := (cores h)(c := setConfig E cfg (cores h c)),
       calls := calls h @ [SetConfig c cfg]\<rparr>"

definition core_setAuth ::
  "('s, 'c, 'e, 'r) APICore \<Rightarrow> ('s, 'c) heap \<Rightarrow> addr \<Rightarrow> jsvalue list \<Rightarrow> ('s, 'c) heap" where
  "core_setAuth E h c vs =
     h\<lparr>cores := (cores h)(c := setAuth E vs (cores h c)),
       calls := calls h @ [SetAuth c vs]\<rparr>"

definition core_setServer ::
  "('s, 'c, 'e, 'r) APICore \<Rightarrow> ('s, 'c) heap \<Rightarrow> addr \<Rightarrow> string \<Rightarrow> jsvalue \<Rightarrow> ('s, 'c) heap" where
  "core_setServer E h c url vars =
     h\<lparr>cores := (cores h)(c := setServer E url vars (cores h c)),
       calls := calls h @ [SetServer c url vars]\<rparr>"

definition core_fetch ::
  "('s, 'c, 'e, 'r) APICore \<Rightarrow> ('s, 'c) heap \<Rightarrow> addr \<Rightarrow> string \<Rightarrow> string \<Rightarrow> jsvalue list
     \<Rightarrow> ('e + 'r) \<times> ('s, 'c) heap" where
  "core_fetch E h c p m args =
     (fst (fetch E p m args (cores h c)),
      h\<lparr>cores := (cores h)(c := snd (fetch E p m args (cores h c))),
        calls := calls h @ [Fetch c p m args]\<rparr>)"

subsection \<open>Class SDK\<close>

text \<open>
  The constructor: \<open>this.spec = Oas.init(definition); this.core = new APICore(this.spec, ...)\<close>.
  The parsed description \<open>oas\<close> stands for \<open>Oas.init(definition)\<close>; \<open>openapi.json\<close> is
  not among the sources.
\<close>

definition SDK_new ::
  "('s, 'c, 'e, 'r) APICore \<Rightarrow> 's \<Rightarrow> ('s, 'c) heap \<Rightarrow> addr \<times> ('s, 'c) heap" where
  "SDK_new E oas h =
     (let this = fresh h; c = Suc (fresh h) in
      (this,
       h\<lparr>sdks := (sdks h)(this := \<lparr>spec = oas, core = c\<rparr>),
         cores := (cores h)(c := new_APICore E oas ''sleepiq/1.0.0 (api/6.1.3)''),
         fresh := Suc c,
         calls := calls h @ [NewCore c ''sleepiq/1.0.0 (api/6.1.3)'']\<rparr>))"

definition config ::
  "('s, 'c, 'e, 'r) APICore \<Rightarrow> ('s, 'c) heap \<Rightarrow> addr \<Rightarrow> jsvalue \<Rightarrow> retval \<times> ('s, 'c) heap" where
  "config E h this cfg = (Undefined, core_setConfig E h (core (sdks h this)) cfg)"

definition auth ::
  "('s, 'c, 'e, 'r) APICore \<Rightarrow> ('s, 'c) heap \<Rightarrow> addr \<Rightarrow> jsvalue list \<Rightarrow> retval \<times> ('s, 'c) heap" where
  "auth E h this vs = (Object this, core_setAuth E h (core (sdks h this)) vs)"

text \<open>\<open>server(url, variables = {})\<close>: an omitted second argument is the empty object.\<close>

definition server ::
  "('s, 'c, 'e, 'r) APICore \<Rightarrow> ('s, 'c) heap \<Rightarrow> addr \<Rightarrow> string \<Rightarrow> jsvalue option
     \<Rightarrow> retval \<times> ('s, 'c) heap" where
  "server E h this url variables =
     (Undefined,
      core_setServer E h (core (sdks h this)) url
        (case variables of None \<Rightarrow> JObj [] | Some v \<Rightarrow> v))"

definition login ::
  "('s, 'c, 'e, 'r) APICore \<Rightarrow> ('s, 'c) heap \<Rightarrow> addr \<Rightarrow> jsvalue \<Rightarrow> ('e + 'r) \<times> ('s, 'c) heap" where
  "login E h this body = core_fetch E h (core (sdks h this)) ''/login'' ''put'' [body]"

definition getJwt ::
  "('s, 'c, 'e, 'r) APICore \<Rightarrow> ('s, 'c) heap \<Rightarrow> addr \<Rightarrow> ('e + 'r) \<times> ('s, 'c) heap" where
  "getJwt E h this = core_fetch E h (core (sdks h this)) ''/user/jwt'' ''get'' []"

definition getAccount ::
  "('s, 'c, 'e, 'r) APICore \<Rightarrow> ('s, 'c) heap \<Rightarrow> addr \<Rightarrow> ('e + 'r) \<times> ('s, 'c) heap" where
  "getAccount E h this = core_fetch E h (core (sdks h this)) ''/account'' ''get'' []"

definition getBed ::
  "('s, 'c, 'e, 'r) APICore \<Rightarrow> ('s, 'c) heap \<Rightarrow> addr \<Rightarrow> jsvalue \<Rightarrow> ('e + 'r) \<times> ('s, 'c) heap" where
  "getBed E h this metadata =
     core_fetch E h (core (sdks h this)) ''/bed/{bedId}'' ''get'' [metadata]"

definition getPauseMode ::
  "('s, 'c, 'e, 'r) APICore \<Rightarrow> ('s, 'c) heap \<Rightarrow> addr \<Rightarrow> jsvalue \<Rightarrow> ('e + 'r) \<times> ('s, 'c) heap" where
  "getPauseMode E h this metadata =
     core_fetch E h (core (sdks h this)) ''/bed/{bedId}/pauseMode'' ''get'' [metadata]"

definition setPauseMode ::
  "('s, 'c, 'e, 'r) APICore \<Rightarrow> ('s, 'c) heap \<Rightarrow> addr \<Rightarrow> jsvalue \<Rightarrow> jsvalue
     \<Rightarrow> ('e + 'r) \<times> ('s, 'c) heap" where
  "setPauseMode E h this body metadata =
     core_fetch E h (core (sdks h this)) ''/bed/{bedId}/pauseMode'' ''put'' [body, metadata]"

definition stopPump ::
  "('s, 'c, 'e, 'r) APICore \<Rightarrow> ('s, 'c) heap \<Rightarrow> addr \<Rightarrow> jsvalue \<Rightarrow> ('e + 'r) \<times> ('s, 'c) heap" where
  "stopPump E h this metadata =
     core_fetch E h (core (sdks h this)) ''/bed/{bedId}/pump/forceIdle'' ''put'' [metadata]"

definition setSleepNumber ::
  "('s, 'c, 'e, 'r) APICore \<Rightarrow> ('s, 'c) heap \<Rightarrow> addr \<Rightarrow> jsvalue \<Rightarrow> jsvalue
     \<Rightarrow> ('e + 'r) \<times> ('s, 'c) heap" where
  "setSleepNumber E h this body metadata =
     core_fetch E h (core (sdks h this)) ''/bed/{bedId}/sleepNumber'' ''put'' [body, metadata]"

definition getFavorite ::
  "('s, 'c, 'e, 'r) APICore \<Rightarrow> ('s, 'c) heap \<Rightarrow> addr \<Rightarrow> jsvalue \<Rightarrow> ('e + 'r) \<times> ('s, 'c) heap" where
  "getFavorite E h this metadata =
     core_fetch E h (core (sdks h this)) ''/bed/{bedId}/sleepNumberFavorite'' ''get'' [metadata]"

definition setFavorite ::
  "('s, 'c, 'e, 'r) APICore \<Rightarrow> ('s, 'c) heap \<Rightarrow> addr \<Rightarrow> jsvalue \<Rightarrow> jsvalue
     \<Rightarrow> ('e + 'r) \<times> ('s, 'c) heap" where
  "setFavorite E h this body metadata =
     core_fetch E h (core (sdks h this)) ''/bed/{bedId}/sleepNumberFavorite'' ''put''
       [body, metadata]"

definition getFoundation ::
  "('s, 'c, 'e, 'r) APICore \<Rightarrow> ('s, 'c) heap \<Rightarrow> addr \<Rightarrow> jsvalue \<Rightarrow> ('e + 'r) \<times> ('s, 'c) heap" where
  "getFoundation E h this metadata =
     core_fetch E h (core (sdks h this)) ''/bed/{bedId}/foundation/status'' ''get'' [metadata]"

definition checkOutlet ::
  "('s, 'c, 'e, 'r) APICore \<Rightarrow> ('s, 'c) heap \<Rightarrow> addr \<Rightarrow> jsvalue \<Rightarrow> ('e + 'r) \<times> ('s, 'c) heap" where
  "checkOutlet E h this metadata =
     core_fetch E h (core (sdks h this)) ''/bed/{bedId}/foundation/outlet'' ''get'' [metadata]"

definition getFootWarming ::
  "('s, 'c, 'e, 'r) APICore \<Rightarrow> ('s, 'c) heap \<Rightarrow> addr \<Rightarrow> jsvalue \<Rightarrow> ('e + 'r) \<times> ('s, 'c) heap" where
  "getFootWarming E h this metadata =
     core_fetch E h (core (sdks h this)) ''/bed/{bedId}/foundation/footwarming'' ''get''
       [metadata]"

definition calibrate ::
  "('s, 'c, 'e, 'r) APICore \<Rightarrow> ('s, 'c) heap \<Rightarrow> addr \<Rightarrow> jsvalue \<Rightarrow> ('e + 'r) \<times> ('s, 'c) heap" where
  "calibrate E h this metadata =
     core_fetch E h (core (sdks h this)) ''/sleeper/{sleeperId}/calibrate'' ''put'' [metadata]"

definition executeBam ::
  "('s, 'c, 'e, 'r) APICore \<Rightarrow> ('s, 'c) heap \<Rightarrow> addr \<Rightarrow> jsvalue \<Rightarrow> jsvalue
     \<Rightarrow> ('e + 'r) \<times> ('s, 'c) heap" where
  "executeBam E h this body metadata =
     core_fetch E h (core (sdks h this)) ''/sn/v1/accounts/{accountId}/beds/{bedId}/bamkey''
       ''put'' [body, metadata]"

text \<open>
  The module body: \<open>const createSDK = (() => { return new SDK(); })()\<close>. The arrow function
  is applied on the spot, so \<open>createSDK\<close> is the instance that evaluating the module
  builds, with the store that evaluation leaves.
\<close>

definition createSDK ::
  "('s, 'c, 'e, 'r) APICore \<Rightarrow> 's \<Rightarrow> ('s, 'c) heap \<Rightarrow> addr \<times> ('s, 'c) heap" where
  "createSDK E oas h = SDK_new E oas h"

subsection \<open>A call of a domain operation\<close>

text \<open>
  One constructor per domain method of the class, carrying the caller's arguments, so that
  a statement can range over all fifteen methods; \<open>invoke\<close> calls the method named.
\<close>

datatype operation =
    Login jsvalue
  | GetJwt
  | GetAccount
  | GetBed jsvalue
  | GetPauseMode jsvalue
  | SetPauseMode jsvalue jsvalue
  | StopPump jsvalue
  | SetSleepNumber jsvalue jsvalue
  | GetFavorite jsvalue
  | SetFavorite jsvalue jsvalue
  | GetFoundation jsvalue
  | CheckOutlet jsvalue
  | GetFootWarming jsvalue
  | Calibrate jsvalue
  | ExecuteBam jsvalue jsvalue

fun invoke ::
  "('s, 'c, 'e, 'r) APICore \<Rightarrow> ('s, 'c) heap \<Rightarrow> addr \<Rightarrow> operation \<Rightarrow> ('e + 'r) \<times> ('s, 'c) heap" where
  "invoke E h this (Login b) = login E h this b"
| "invoke E h this GetJwt = getJwt E h this"
| "invoke E h this GetAccount = getAccount E h this"
| "invoke E h this (GetBed m) = getBed E h this m"
| "invoke E h this (GetPauseMode m) = getPauseMode E h this m"
| "invoke E h this (SetPauseMode b m) = setPauseMode E h this b m"
| "invoke E h this (StopPump m) = stopPump E h this m"
| "invoke E h this (SetSleepNumber b m) = setSleepNumber E h this b m"
| "invoke E h this (GetFavorite m) = getFavorite E h this m"
| "invoke E h this (SetFavorite b m) = setFavorite E h this b m"
| "invoke E h this (GetFoundation m) = getFoundation E h this m"
| "invoke E h this (CheckOutlet m) = checkOutlet E h this m"
| "invoke E h this (GetFootWarming m) = getFootWarming E h this m"
| "invoke E h this (Calibrate m) = calibrate E h this m"
| "invoke E h this (ExecuteBam b m) = executeBam E h this b m"

subsection \<open>The operations table of the specification\<close>

text \<open>
  The specification lists each operation as a path and an upper-case HTTP verb
  (section 6, representative operations). \<open>documented_path\<close> and \<open>documented_verb\<close>
  transcribe that table, one row per method; \<open>method_name\<close> is the lower-case name
  under which the engine takes a verb. \<open>forwarded\<close> is the caller's argument list, in
  the caller's order.
\<close>

datatype verb = GET | PUT

fun method_name :: "verb \<Rightarrow> string" where
  "method_name GET = ''get''"
| "method_name PUT = ''put''"

fun documented_path :: "operation \<Rightarrow> string" where
  "documented_path (Login b) = ''/login''"
| "documented_path GetJwt = ''/user/jwt''"
| "documented_path GetAccount = ''/account''"
| "documented_path (GetBed m) = ''/bed/{bedId}''"
| "documented_path (GetPauseMode m) = ''/bed/{bedId}/pauseMode''"
| "documented_path (SetPauseMode b m) = ''/bed/{bedId}/pauseMode''"
| "documented_path (StopPump m) = ''/bed/{bedId}/pump/forceIdle''"
| "documented_path (SetSleepNumber b m) = ''/bed/{bedId}/sleepNumber''"
| "documented_path (GetFavorite m) = ''/bed/{bedId}/sleepNumberFavorite''"
| "documented_path (SetFavorite b m) = ''/bed/{bedId}/sleepNumberFavorite''"
| "documented_path (GetFoundation m) = ''/bed/{bedId}/foundation/status''"
| "documented_path (CheckOutlet m) = ''/bed/{bedId}/foundation/outlet''"
| "documented_path (GetFootWarming m) = ''/bed/{bedId}/foundation/footwarming''"
| "documented_path (Calibrate m) = ''/sleeper/{sleeperId}/calibrate''"
| "documented_path (ExecuteBam b m) = ''/sn/v1/accounts/{accountId}/beds/{bedId}/bamkey''"

fun documented_verb :: "operation \<Rightarrow> verb" where
  "documented_verb (Login b) = PUT"
| "documented_verb GetJwt = GET"
| "documented_verb GetAccount = GET"
| "documented_verb (GetBed m) = GET"
| "documented_verb (GetPauseMode m) = GET"
| "documented_verb (SetPauseMode b m) = PUT"
| "documented_verb (StopPump m) = PUT"
| "documented_verb (SetSleepNumber b m) = PUT"
| "documented_verb (GetFavorite m) = GET"
| "documented_verb (SetFavorite b m) = PUT"
| "documented_verb (GetFoundation m) = GET"
| "documented_verb (CheckOutlet m) = GET"
| "documented_verb (GetFootWarming m) = GET"
| "documented_verb (Calibrate m) = PUT"
| "documented_verb (ExecuteBam b m) = PUT"

fun forwarded :: "operation \<Rightarrow> jsvalue list" where
  "forwarded (Login b) = [b]"
| "forwarded GetJwt = []"
| "forwarded GetAccount = []"
| "forwarded (GetBed m) = [m]"
| "forwarded (GetPauseMode m) = [m]"
| "forwarded (SetPauseMode b m) = [b, m]"
| "forwarded (StopPump m) = [m]"
| "forwarded (SetSleepNumber b m) = [b, m]"
| "forwarded (GetFavorite m) = [m]"
| "forwarded (SetFavorite b m) = [b, m]"
| "forwarded (GetFoundation m) = [m]"
| "forwarded (CheckOutlet m) = [m]"
| "forwarded (GetFootWarming m) = [m]"
| "forwarded (Calibrate m) = [m]"
| "forwarded (ExecuteBam b m) = [b, m]"

text \<open>The calls that change an engine object's configuration.\<close>

fun is_setter :: "call \<Rightarrow> bool" where
  "is_setter (SetConfig c cfg) = True"
| "is_setter (SetAuth c vs) = True"
| "is_setter (SetServer c url vars) = True"
| "is_setter (NewCore c ua) = False"
| "is_setter (Fetch c p m args) = False"

fun is_new :: "call \<Rightarrow> bool" where
  "is_new (NewCore c ua) = True"
| "is_new (SetConfig c cfg) = False"
| "is_new (SetAuth c vs) = False"
| "is_new (SetServer c url vars) = False"
| "is_new (Fetch c p m args) = False"

subsection \<open>The module in a process\<close>

text \<open>
  \<open>export default createSDK\<close> makes the instance the module's default export. A process
  keeps one registry entry for the module: empty until the module has been evaluated,
  and its default export from then on. An import evaluates the module body if the entry
  is empty and records the export; otherwise it hands out the recorded export and
  evaluates nothing. This is the module system's rule, written out for this module.
\<close>

record ('s, 'c) process =
  store :: "('s, 'c) heap"
  registry :: "addr option"

definition import_default ::
  "('s, 'c, 'e, 'r) APICore \<Rightarrow> 's \<Rightarrow> ('s, 'c) process \<Rightarrow> addr \<times> ('s, 'c) process" where
  "import_default E oas p =
     (case registry p of
        Some inst \<Rightarrow> (inst, p)
      | None \<Rightarrow>
          (fst (createSDK E oas (store p)),
           \<lparr>store = snd (createSDK E oas (store p)),
            registry = Some (fst (createSDK E oas (store p)))\<rparr>))"

text \<open>
  What an importer does with the binding \<open>sleepiq\<close> it imported: nothing, or one method
  call on it. \<open>importer_step\<close> reads the binding (importing the module) and makes the
  call; it returns the reference the importer saw. \<open>run\<close> is a sequence of such steps,
  by any importers in any order, in one process.
\<close>

datatype action =
    JustImport
  | CallAuth "jsvalue list"
  | CallConfig jsvalue
  | CallServer string "jsvalue option"
  | CallOp operation

definition importer_step ::
  "('s, 'c, 'e, 'r) APICore \<Rightarrow> 's \<Rightarrow> ('s, 'c) process \<Rightarrow> action \<Rightarrow> addr \<times> ('s, 'c) process" where
  "importer_step E oas p a =
     (let i = fst (import_default E oas p); p1 = snd (import_default E oas p) in
      (i,
       case a of
         JustImport \<Rightarrow> p1
       | CallAuth vs \<Rightarrow> p1\<lparr>store := snd (auth E (store p1) i vs)\<rparr>
       | CallConfig cfg \<Rightarrow> p1\<lparr>store := snd (config E (store p1) i cfg)\<rparr>
       | CallServer url variables \<Rightarrow> p1\<lparr>store := snd (server E (store p1) i url variables)\<rparr>
       | CallOp op \<Rightarrow> p1\<lparr>store := snd (invoke E (store p1) i op)\<rparr>))"

fun run ::
  "('s, 'c, 'e, 'r) APICore \<Rightarrow> 's \<Rightarrow> ('s, 'c) process \<Rightarrow> action list
     \<Rightarrow> addr list \<times> ('s, 'c) process" where
  "run E oas p [] = ([], p)"
| "run E oas p (a # as) =
     (fst (importer_step E oas p a) # fst (run E oas (snd (importer_step E oas p a)) as),
      snd (run E oas (snd (importer_step E oas p a)) as))"

text \<open>
  What one engine object becomes when an action's call reaches it: the engine's own
  setter or \<open>fetch\<close> applied to its state.
\<close>

fun engine_effect :: "('s, 'c, 'e, 'r) APICore \<Rightarrow> 'c \<Rightarrow> action \<Rightarrow> 'c" where
  "engine_effect E s JustImport = s"
| "engine_effect E s (CallAuth vs) = setAuth E vs s"
| "engine_effect E s (CallConfig cfg) = setConfig E cfg s"
| "engine_effect E s (CallServer url variables) =
     setServer E url (case variables of None \<Rightarrow> JObj [] | Some v \<Rightarrow> v) s"
| "engine_effect E s (CallOp op) =
     snd (fetch E (documented_path op) (method_name (documented_verb op)) (forwarded op) s)"

subsection \<open>A concrete engine and store for instantiating the statements\<close>

text \<open>
  The facade is stated for every engine. \<open>probe_engine\<close> is one small engine to run it
  on: its state is the credential list last stored, it rejects every \<open>put\<close> with the
  path it was given and resolves every other call with the credentials followed by the
  arguments. \<open>blank_heap\<close> is a store in which nothing has been built or called.
\<close>

definition probe_engine :: "(unit, jsvalue list, string, jsvalue list) APICore" where
  "probe_engine =
     \<lparr>new_APICore = (\<lambda>oas ua. []),
      setConfig = (\<lambda>cfg c. c),
      setAuth = (\<lambda>vs c. vs),
      setServer = (\<lambda>url vars c. c),
      fetch = (\<lambda>p m args c. (if m = ''put'' then Inl p else Inr (c @ args), c))\<rparr>"

definition blank_heap :: "'s \<Rightarrow> 'c \<Rightarrow> ('s, 'c) heap" where
  "blank_heap oas c0 =
     \<lparr>sdks = (\<lambda>a. \<lparr>spec = oas, core = 0\<rparr>), cores = (\<lambda>a. c0), fresh = 0, calls = []\<rparr>"

section \<open>The engine as the specification describes it\<close>

text \<open>
  Modelled from the spec: the generic engine (class \<open>APICore\<close> of \<open>api/dist/core\<close>) and
  the bound API description (\<open>openapi.json\<close>), neither of which is in the repository's
  sources. Section 2 of the specification gives the engine's work as substituting path
  parameters, serialising the body and issuing the request; section 3 gives an operation
  descriptor as a verb and a path template with named placeholders; section 6 lists the
  operations. Attaching credentials and choosing the server are left out of this model.
\<close>

text \<open>Modelled from the spec: the request an invocation dispatches (verb, resolved path, body).\<close>

record request =
  rq_verb :: verb
  rq_path :: string
  rq_body :: "jsvalue option"

text \<open>Modelled from the spec: the response wrapper of section 3, reduced to status and payload.\<close>

record response =
  status :: nat
  payload :: jsvalue

text \<open>Modelled from the spec: the error taxonomy of section 7.\<close>

datatype failure =
    UnknownOperation
  | MissingPathParameter
  | TransportFailure
  | HttpFailure response

text \<open>
  Modelled from the spec: an operation descriptor (section 3) of the bound API description,
  with the flag saying whether the operation has a request body. The flag is set for the
  operations whose generated method takes a \<open>body\<close> parameter.
\<close>

record op_descriptor =
  od_path :: string
  od_verb :: verb
  od_body :: bool

text \<open>Modelled from the spec: the operations of section 6, standing for \<open>openapi.json\<close>.\<close>

definition sleepiq_description :: "op_descriptor list" where
  "sleepiq_description =
     [\<lparr>od_path = ''/login'', od_verb = PUT, od_body = True\<rparr>,
      \<lparr>od_path = ''/user/jwt'', od_verb = GET, od_body = False\<rparr>,
      \<lparr>od_path = ''/account'', od_verb = GET, od_body = False\<rparr>,
      \<lparr>od_path = ''/bed/{bedId}'', od_verb = GET, od_body = False\<rparr>,
      \<lparr>od_path = ''/bed/{bedId}/pauseMode'', od_verb = GET, od_body = False\<rparr>,
      \<lparr>od_path = ''/bed/{bedId}/pauseMode'', od_verb = PUT, od_body = True\<rparr>,
      \<lparr>od_path = ''/bed/{bedId}/pump/forceIdle'', od_verb = PUT, od_body = False\<rparr>,
      \<lparr>od_path = ''/bed/{bedId}/sleepNumber'', od_verb = PUT, od_body = True\<rparr>,
      \<lparr>od_path = ''/bed/{bedId}/sleepNumberFavorite'', od_verb = GET, od_body = False\<rparr>,
      \<lparr>od_path = ''/bed/{bedId}/sleepNumberFavorite'', od_verb = PUT, od_body = True\<rparr>,
      \<lparr>od_path = ''/bed/{bedId}/foundation/status'', od_verb = GET, od_body = False\<rparr>,
      \<lparr>od_path = ''/bed/{bedId}/foundation/outlet'', od_verb = GET, od_body = False\<rparr>,
      \<lparr>od_path = ''/bed/{bedId}/foundation/footwarming'', od_verb = GET, od_body = False\<rparr>,
      \<lparr>od_path = ''/sleeper/{sleeperId}/calibrate'', od_verb = PUT, od_body = False\<rparr>,
      \<lparr>od_path = ''/sn/v1/accounts/{accountId}/beds/{bedId}/bamkey'', od_verb = PUT,
        od_body = True\<rparr>]"

text \<open>Modelled from the spec: the verb that a method name of the engine's interface selects.\<close>

definition verb_of :: "string \<Rightarrow> verb option" where
  "verb_of m = (if m = ''get'' then Some GET else if m = ''put'' then Some PUT else None)"

text \<open>
  Modelled from the spec: the named placeholders of a path template, a placeholder being
  a name between braces. The first argument is the name being read, if any.
\<close>

fun scan :: "string option \<Rightarrow> string \<Rightarrow> string list" where
  "scan None [] = []"
| "scan None (c # cs) = (if c = CHR ''{'' then scan (Some []) cs else scan None cs)"
| "scan (Some n) [] = []"
| "scan (Some n) (c # cs) =
     (if c = CHR ''}'' then n # scan None cs else scan (Some (n @ [c])) cs)"

definition placeholders :: "string \<Rightarrow> string list" where
  "placeholders t = scan None t"

text \<open>
  Modelled from the spec: substitution of path parameters into a template. A placeholder
  whose name has a value is replaced by it; one without is left as it stands.
\<close>

fun fill :: "(string \<Rightarrow> string option) \<Rightarrow> string option \<Rightarrow> string \<Rightarrow> string" where
  "fill f None [] = []"
| "fill f None (c # cs) = (if c = CHR ''{'' then fill f (Some []) cs else c # fill f None cs)"
| "fill f (Some n) [] = CHR ''{'' # n"
| "fill f (Some n) (c # cs) =
     (if c = CHR ''}''
      then (case f n of Some v \<Rightarrow> v | None \<Rightarrow> CHR ''{'' # n @ ''}'') @ fill f None cs
      else fill f (Some (n @ [c])) cs)"

text \<open>
  Modelled from the spec: the value a metadata object supplies for a path parameter. The
  specification does not say how a value that is not a string is written into a path, so
  only a string-valued key supplies one.
\<close>

fun path_value :: "jsvalue option \<Rightarrow> string \<Rightarrow> string option" where
  "path_value (Some (JObj kvs)) k =
     (case map_of kvs k of Some (JStr s) \<Rightarrow> Some s | _ \<Rightarrow> None)"
| "path_value _ k = None"

text \<open>
  Modelled from the spec: which of the forwarded arguments is the body and which the
  metadata (section 4.1: an optional body and an optional metadata object). Two arguments
  are body and metadata; a single one is the body if the operation has one, and the
  metadata otherwise, as the scenarios of section 8 have it.
\<close>

definition split_args :: "bool \<Rightarrow> jsvalue list \<Rightarrow> jsvalue option \<times> jsvalue option" where
  "split_args has_body args =
     (case args of
        [] \<Rightarrow> (None, None)
      | [a] \<Rightarrow> (if has_body then (Some a, None) else (None, Some a))
      | a # b # rest \<Rightarrow> (Some a, Some b))"

text \<open>Modelled from the spec: the engine object's state (section 3) and the requests it has sent.\<close>

record engine_state =
  es_spec :: "op_descriptor list"
  es_agent :: string
  es_config :: "jsvalue option"
  es_auth :: "jsvalue list"
  es_server :: "(string \<times> jsvalue) option"
  es_sent :: "request list"

text \<open>
  Modelled from the spec: the engine's invoke-operation primitive. The operation is
  selected by path and verb; the request is built and handed to the network \<open>net\<close>, which
  answers with a response or not at all; no answer and a status outside 200..299 are
  rejections (section 7). The specification describes a placeholder without a metadata key
  in two ways (sections 4.1 and 8: the call fails unsent; section 7: the request may go
  out and the server answer 4xx), so the engine's choice is the parameter \<open>strict\<close>.
\<close>

definition spec_fetch ::
  "bool \<Rightarrow> (request \<Rightarrow> response option) \<Rightarrow> string \<Rightarrow> string \<Rightarrow> jsvalue list \<Rightarrow> engine_state
     \<Rightarrow> (failure + response) \<times> engine_state" where
  "spec_fetch strict net p m args st =
     (case find (\<lambda>d. od_path d = p \<and> Some (od_verb d) = verb_of m) (es_spec st) of
        None \<Rightarrow> (Inl UnknownOperation, st)
      | Some d \<Rightarrow>
          (let body = fst (split_args (od_body d) args);
               metadata = snd (split_args (od_body d) args);
               rq = \<lparr>rq_verb = od_verb d,
                     rq_path = fill (path_value metadata) None p,
                     rq_body = body\<rparr>
           in if strict \<and> list_ex (\<lambda>k. path_value metadata k = None) (placeholders p)
              then (Inl MissingPathParameter, st)
              else ((case net rq of
                       None \<Rightarrow> Inl TransportFailure
                     | Some r \<Rightarrow>
                         if 200 \<le> status r \<and> status r < 300 then Inr r
                         else Inl (HttpFailure r)),
                    st\<lparr>es_sent := es_sent st @ [rq]\<rparr>)))"

text \<open>Modelled from the spec: the engine assembled; the setters store what they are given.\<close>

definition spec_engine ::
  "bool \<Rightarrow> (request \<Rightarrow> response option)
     \<Rightarrow> (op_descriptor list, engine_state, failure, response) APICore" where
  "spec_engine strict net =
     \<lparr>new_APICore = (\<lambda>oas ua.
        \<lparr>es_spec = oas, es_agent = ua, es_config = None, es_auth = [], es_server = None,
         es_sent = []\<rparr>),
      setConfig = (\<lambda>cfg st. st\<lparr>es_config := Some cfg\<rparr>),
      setAuth = (\<lambda>vs st. st\<lparr>es_auth := vs\<rparr>),
      setServer = (\<lambda>url vars st. st\<lparr>es_server := Some (url, vars)\<rparr>),
      fetch = spec_fetch strict net\<rparr>"

text \<open>A network that answers every request with status 200 and an empty payload.\<close>

definition ok_net :: "request \<Rightarrow> response option" where
  "ok_net rq = Some \<lparr>status = 200, payload = JObj []\<rparr>"

section \<open>Properties of the facade\<close>

lemmas method_defs =
  login_def getJwt_def getAccount_def getBed_def getPauseMode_def setPauseMode_def
  stopPump_def setSleepNumber_def getFavorite_def setFavorite_def getFoundation_def
  checkOutlet_def getFootWarming_def calibrate_def executeBam_def

lemma invoke_core_fetch:
  "invoke E h this op =
     core_fetch E h (core (sdks h this)) (documented_path op)
       (method_name (documented_verb op)) (forwarded op)"
  by (cases op) (simp_all add: method_defs)

subsection \<open>Forwarding\<close>

text \<open>
  Claim C1. Every domain method (login, getJwt, getAccount, getBed, getPauseMode,
  setPauseMode, stopPump, setSleepNumber, getFavorite, setFavorite, getFoundation,
  checkOutlet, getFootWarming, calibrate, executeBam) makes exactly one call of the engine,
  and that call is \<open>fetch\<close> with the path template and verb that the specification's table
  lists for the operation and with the caller's arguments unchanged and in the caller's
  order; the method returns what that call returns. This holds for every engine, store,
  receiver and argument.
\<close>

theorem facade_forwards_once:
  "calls (snd (invoke E h this op)) =
     calls h @ [Fetch (core (sdks h this)) (documented_path op)
                  (method_name (documented_verb op)) (forwarded op)]
   \<and> fst (invoke E h this op) =
       fst (fetch E (documented_path op) (method_name (documented_verb op)) (forwarded op)
              (cores h (core (sdks h this))))"
  by (simp add: invoke_core_fetch core_fetch_def)

text \<open>C1 at a concrete call: \<open>getBed({bedId: "123"})\<close> on the probe engine.\<close>

theorem facade_forwards_once_witness:
  "calls (snd (invoke probe_engine (blank_heap () [JStr ''key'']) 0
                 (GetBed (JObj [(''bedId'', JStr ''123'')]))))
     = [Fetch 0 ''/bed/{bedId}'' ''get'' [JObj [(''bedId'', JStr ''123'')]]]
   \<and> fst (invoke probe_engine (blank_heap () [JStr ''key'']) 0
             (GetBed (JObj [(''bedId'', JStr ''123'')])))
     = Inr [JStr ''key'', JObj [(''bedId'', JStr ''123'')]]"
  using facade_forwards_once [of probe_engine "blank_heap () [JStr ''key'']" 0
      "GetBed (JObj [(''bedId'', JStr ''123'')])"]
  by (simp add: probe_engine_def blank_heap_def)

subsection \<open>Failures\<close>

text \<open>
  Claim C3. Whatever rejection \<open>e\<close> the engine's \<open>fetch\<close> returns for the call a domain
  method makes (no answer from the network, a status outside 2xx, a caller-input error:
  the facade does not tell them apart), the method returns that same rejection \<open>e\<close>, with
  whatever it carries, and has called the engine exactly once: nothing is retried,
  replaced by a default or wrapped in another error.
\<close>

theorem facade_propagates_failure:
  assumes "fst (fetch E (documented_path op) (method_name (documented_verb op)) (forwarded op)
                  (cores h (core (sdks h this)))) = Inl e"
  shows "fst (invoke E h this op) = Inl e
         \<and> calls (snd (invoke E h this op)) =
             calls h @ [Fetch (core (sdks h this)) (documented_path op)
                          (method_name (documented_verb op)) (forwarded op)]"
  using assms by (simp add: invoke_core_fetch core_fetch_def)

text \<open>C3 at a concrete call: the probe engine rejects \<open>stopPump\<close>, and so does the facade.\<close>

theorem facade_propagates_failure_witness:
  "fst (invoke probe_engine (blank_heap () []) 0 (StopPump (JObj [(''bedId'', JStr ''123'')])))
     = Inl ''/bed/{bedId}/pump/forceIdle''
   \<and> calls (snd (invoke probe_engine (blank_heap () []) 0
                    (StopPump (JObj [(''bedId'', JStr ''123'')]))))
     = [Fetch 0 ''/bed/{bedId}/pump/forceIdle'' ''put'' [JObj [(''bedId'', JStr ''123'')]]]"
  using facade_propagates_failure [of probe_engine "StopPump (JObj [(''bedId'', JStr ''123'')])"
      "blank_heap () []" 0 "''/bed/{bedId}/pump/forceIdle''"]
  by (simp add: probe_engine_def blank_heap_def)

subsection \<open>Frame of a domain operation\<close>

text \<open>
  Claim C7. A domain method writes nothing of the facade: after the call every \<open>SDK\<close>
  object has the \<open>spec\<close> and \<open>core\<close> fields it had, no object has been allocated, every
  engine object other than the receiver's is as it was, and no configuration setter
  (\<open>setConfig\<close>, \<open>setAuth\<close>, \<open>setServer\<close>) has been called: those are reached only through
  \<open>config\<close>, \<open>auth\<close> and \<open>server\<close>. The receiver's engine object is touched by the engine's
  own \<open>fetch\<close> alone; so for any part \<open>cfg\<close> of the engine's state that its \<open>fetch\<close> leaves
  alone (its credentials, server and timeout), that part is the same before and after.
\<close>

theorem domain_operation_frame:
  assumes "\<forall>p m args s. cfg (snd (fetch E p m args s)) = cfg s"
  shows "sdks (snd (invoke E h this op)) = sdks h
         \<and> fresh (snd (invoke E h this op)) = fresh h
         \<and> (\<forall>a. cfg (cores (snd (invoke E h this op)) a) = cfg (cores h a))
         \<and> (\<forall>a. a = core (sdks h this) \<or> cores (snd (invoke E h this op)) a = cores h a)
         \<and> filter is_setter (calls (snd (invoke E h this op))) = filter is_setter (calls h)"
  using assms by (simp add: invoke_core_fetch core_fetch_def)

text \<open>
  C7 at a concrete call: on the probe engine, whose \<open>fetch\<close> keeps the stored
  credentials, \<open>getAccount\<close> leaves the store as it was.
\<close>

theorem domain_operation_frame_witness:
  "sdks (snd (invoke probe_engine (blank_heap () [JStr ''key'']) 0 GetAccount))
     = sdks (blank_heap () [JStr ''key''])
   \<and> fresh (snd (invoke probe_engine (blank_heap () [JStr ''key'']) 0 GetAccount)) = 0
   \<and> (\<forall>a. cores (snd (invoke probe_engine (blank_heap () [JStr ''key'']) 0 GetAccount)) a
            = [JStr ''key''])
   \<and> filter is_setter (calls (snd (invoke probe_engine (blank_heap () [JStr ''key'']) 0
                                      GetAccount))) = []"
  using domain_operation_frame [of "\<lambda>s. s" probe_engine "blank_heap () [JStr ''key'']" 0 GetAccount]
  by (simp add: probe_engine_def blank_heap_def)

subsection \<open>Return values of the configuration methods\<close>

text \<open>
  Claim C8. For every list of credential values, \<open>auth\<close> returns the instance it was
  called on, so that calls can be chained; \<open>config\<close> and \<open>server\<close> return no value.
\<close>

theorem auth_returns_this:
  "fst (auth E h this vs) = Object this
   \<and> fst (config E h this cfg) = Undefined
   \<and> fst (server E h this url variables) = Undefined"
  by (simp add: auth_def config_def server_def)

text \<open>C8 at concrete arguments.\<close>

theorem auth_returns_this_witness:
  "fst (auth probe_engine (blank_heap () []) 7 [JStr ''user'', JStr ''secret'']) = Object 7
   \<and> fst (config probe_engine (blank_heap () []) 7 (JObj [(''timeout'', JNum 60000)])) = Undefined
   \<and> fst (server probe_engine (blank_heap () []) 7 ''https://eu.api.example.com/v14'' None)
       = Undefined"
  using auth_returns_this [of probe_engine "blank_heap () []" 7 "[JStr ''user'', JStr ''secret'']"
      "JObj [(''timeout'', JNum 60000)]" "''https://eu.api.example.com/v14''" None]
  by simp

subsection \<open>The module's instance\<close>

text \<open>Once the module is in the registry, a step imports the same reference and builds nothing.\<close>

lemma import_loaded:
  "registry p = Some i \<Longrightarrow> import_default E oas p = (i, p)"
  by (simp add: import_default_def)

lemma step_loaded:
  assumes "registry p = Some i"
  shows "fst (importer_step E oas p a) = i"
    and "registry (snd (importer_step E oas p a)) = Some i"
    and "sdks (store (snd (importer_step E oas p a))) = sdks (store p)"
    and "fresh (store (snd (importer_step E oas p a))) = fresh (store p)"
    and "filter is_new (calls (store (snd (importer_step E oas p a))))
           = filter is_new (calls (store p))"
    and "cores (store (snd (importer_step E oas p a))) (core (sdks (store p) i))
           = engine_effect E (cores (store p) (core (sdks (store p) i))) a"
  using assms
  by (cases a; simp add: importer_step_def import_loaded auth_def config_def server_def
        core_setAuth_def core_setConfig_def core_setServer_def invoke_core_fetch
        core_fetch_def)+

lemma run_loaded:
  "registry p = Some i \<Longrightarrow>
     fst (run E oas p acts) = replicate (length acts) i
     \<and> registry (snd (run E oas p acts)) = Some i
     \<and> sdks (store (snd (run E oas p acts))) = sdks (store p)
     \<and> fresh (store (snd (run E oas p acts))) = fresh (store p)
     \<and> filter is_new (calls (store (snd (run E oas p acts)))) = filter is_new (calls (store p))
     \<and> cores (store (snd (run E oas p acts))) (core (sdks (store p) i))
         = foldl (engine_effect E) (cores (store p) (core (sdks (store p) i))) acts"
proof (induction acts arbitrary: p)
  case Nil
  then show ?case by simp
next
  case (Cons a as)
  note s = step_loaded [OF Cons.prems, of E oas a]
  note ih = Cons.IH [OF s(2)]
  show ?case using ih s by simp
qed

lemma step_first:
  assumes "registry p = None"
  shows "fst (importer_step E oas p a) = fresh (store p)"
    and "registry (snd (importer_step E oas p a)) = Some (fresh (store p))"
    and "sdks (store (snd (importer_step E oas p a))) (fresh (store p))
           = \<lparr>spec = oas, core = Suc (fresh (store p))\<rparr>"
    and "fresh (store (snd (importer_step E oas p a))) = Suc (Suc (fresh (store p)))"
    and "filter is_new (calls (store (snd (importer_step E oas p a))))
           = filter is_new (calls (store p))
             @ [NewCore (Suc (fresh (store p))) ''sleepiq/1.0.0 (api/6.1.3)'']"
    and "cores (store (snd (importer_step E oas p a))) (Suc (fresh (store p)))
           = engine_effect E (new_APICore E oas ''sleepiq/1.0.0 (api/6.1.3)'') a"
  using assms
  by (cases a; simp add: importer_step_def import_default_def createSDK_def SDK_new_def
        Let_def auth_def config_def server_def core_setAuth_def core_setConfig_def
        core_setServer_def invoke_core_fetch core_fetch_def)+

text \<open>
  Claim C9. In a process that has not yet loaded the module, take any non-empty sequence
  of steps by importers (an import alone, or an import and one call of \<open>auth\<close>, \<open>config\<close>,
  \<open>server\<close> or a domain method). The facade is constructed exactly once, by the first
  import and before any method is called: one engine construction is logged and two
  objects are allocated, the \<open>SDK\<close> object and its engine. The default export is that one
  instance, so every importer sees the same reference; and its one engine object has
  received the calls of all importers in order, so its configuration (credentials,
  server, options) is shared by them all.
\<close>

theorem one_instance_per_process:
  assumes "registry p = None"
  shows "fst (run E oas p (a # as)) = replicate (Suc (length as)) (fresh (store p))
     \<and> registry (snd (run E oas p (a # as))) = Some (fresh (store p))
     \<and> filter is_new (calls (store (snd (run E oas p (a # as)))))
         = filter is_new (calls (store p))
           @ [NewCore (Suc (fresh (store p))) ''sleepiq/1.0.0 (api/6.1.3)'']
     \<and> fresh (store (snd (run E oas p (a # as)))) = Suc (Suc (fresh (store p)))
     \<and> sdks (store (snd (run E oas p (a # as)))) (fresh (store p))
         = \<lparr>spec = oas, core = Suc (fresh (store p))\<rparr>
     \<and> cores (store (snd (run E oas p (a # as)))) (Suc (fresh (store p)))
         = foldl (engine_effect E) (new_APICore E oas ''sleepiq/1.0.0 (api/6.1.3)'') (a # as)"
proof -
  note s = step_first [OF assms, of E oas a]
  note r = run_loaded [OF s(2), of E oas as]
  show ?thesis using r s by simp
qed

text \<open>
  C9 at a concrete run: three steps (an import, \<open>auth("key")\<close>, \<open>getAccount()\<close>) see the
  same object 0, one engine object is constructed, and it holds the credential.
\<close>

theorem one_instance_per_process_witness:
  "fst (run probe_engine () \<lparr>store = blank_heap () [], registry = None\<rparr>
          [JustImport, CallAuth [JStr ''key''], CallOp GetAccount]) = [0, 0, 0]
   \<and> filter is_new (calls (store (snd (run probe_engine ()
          \<lparr>store = blank_heap () [], registry = None\<rparr>
          [JustImport, CallAuth [JStr ''key''], CallOp GetAccount]))))
       = [NewCore 1 ''sleepiq/1.0.0 (api/6.1.3)'']
   \<and> cores (store (snd (run probe_engine () \<lparr>store = blank_heap () [], registry = None\<rparr>
          [JustImport, CallAuth [JStr ''key''], CallOp GetAccount]))) 1
       = [JStr ''key'']"
proof -
  let ?p = "\<lparr>store = blank_heap () [], registry = None\<rparr> :: (unit, jsvalue list) process"
  have n: "registry ?p = None"
    by simp
  have f: "fresh (store ?p) = 0" "calls (store ?p) = []"
    by (simp_all add: blank_heap_def)
  have g: "foldl (engine_effect probe_engine)
             (new_APICore probe_engine () ''sleepiq/1.0.0 (api/6.1.3)'')
             [JustImport, CallAuth [JStr ''key''], CallOp GetAccount] = [JStr ''key'']"
    by (simp add: probe_engine_def)
  note t = one_instance_per_process [OF n, of probe_engine "()" JustImport
      "[CallAuth [JStr ''key''], CallOp GetAccount]"]
  have a: "fst (run probe_engine () ?p [JustImport, CallAuth [JStr ''key''], CallOp GetAccount])
             = [0, 0, 0]"
    using t [THEN conjunct1] by (simp only: f replicate.simps list.size)
       (simp add: numeral_3_eq_3)
  have b: "filter is_new (calls (store (snd (run probe_engine () ?p
               [JustImport, CallAuth [JStr ''key''], CallOp GetAccount]))))
             = [NewCore 1 ''sleepiq/1.0.0 (api/6.1.3)'']"
    using t [THEN conjunct2, THEN conjunct2, THEN conjunct1]
    by (simp only: f filter.simps append_Nil One_nat_def)
  have c: "cores (store (snd (run probe_engine () ?p
               [JustImport, CallAuth [JStr ''key''], CallOp GetAccount]))) 1
             = [JStr ''key'']"
    using t [THEN conjunct2, THEN conjunct2, THEN conjunct2, THEN conjunct2, THEN conjunct2]
    by (simp only: f g One_nat_def)
  show ?thesis
    by (intro conjI a b c)
qed

subsection \<open>Position of the metadata argument\<close>

text \<open>
  Claim C10. \<open>stopPump\<close> and \<open>calibrate\<close>, which take a metadata object and no body, pass
  the metadata as the third argument of \<open>fetch\<close> and pass no fourth argument; the methods
  that take a body and a metadata object (\<open>setPauseMode\<close>, \<open>setSleepNumber\<close>,
  \<open>setFavorite\<close>, \<open>executeBam\<close>) pass the body third and the metadata fourth. (The list
  in a \<open>Fetch\<close> entry holds the arguments from the third on.)
\<close>

theorem metadata_argument_position:
  "calls (snd (stopPump E h this m)) =
     calls h @ [Fetch (core (sdks h this)) ''/bed/{bedId}/pump/forceIdle'' ''put'' [m]]
   \<and> calls (snd (calibrate E h this m)) =
     calls h @ [Fetch (core (sdks h this)) ''/sleeper/{sleeperId}/calibrate'' ''put'' [m]]
   \<and> calls (snd (setPauseMode E h this b m)) =
     calls h @ [Fetch (core (sdks h this)) ''/bed/{bedId}/pauseMode'' ''put'' [b, m]]
   \<and> calls (snd (setSleepNumber E h this b m)) =
     calls h @ [Fetch (core (sdks h this)) ''/bed/{bedId}/sleepNumber'' ''put'' [b, m]]
   \<and> calls (snd (setFavorite E h this b m)) =
     calls h @ [Fetch (core (sdks h this)) ''/bed/{bedId}/sleepNumberFavorite'' ''put'' [b, m]]
   \<and> calls (snd (executeBam E h this b m)) =
     calls h @ [Fetch (core (sdks h this))
                  ''/sn/v1/accounts/{accountId}/beds/{bedId}/bamkey'' ''put'' [b, m]]"
  by (simp add: stopPump_def calibrate_def setPauseMode_def setSleepNumber_def setFavorite_def
      executeBam_def core_fetch_def)

text \<open>C10 at concrete arguments.\<close>

theorem metadata_argument_position_witness:
  "calls (snd (stopPump probe_engine (blank_heap () []) 0 (JObj [(''bedId'', JStr ''123'')])))
     = [Fetch 0 ''/bed/{bedId}/pump/forceIdle'' ''put'' [JObj [(''bedId'', JStr ''123'')]]]
   \<and> calls (snd (setSleepNumber probe_engine (blank_heap () []) 0
                    (JObj [(''side'', JStr ''L''), (''sleepNumber'', JNum 45)])
                    (JObj [(''bedId'', JStr ''123'')])))
     = [Fetch 0 ''/bed/{bedId}/sleepNumber'' ''put''
          [JObj [(''side'', JStr ''L''), (''sleepNumber'', JNum 45)],
           JObj [(''bedId'', JStr ''123'')]]]"
  using metadata_argument_position [of probe_engine "blank_heap () []" 0
      "JObj [(''bedId'', JStr ''123'')]" "JObj [(''side'', JStr ''L''), (''sleepNumber'', JNum 45)]"]
  by (simp add: blank_heap_def)

section \<open>Requests, with the engine as the specification describes it\<close>

lemma find_pauseMode_put:
  "find (\<lambda>d. od_path d = ''/bed/{bedId}/pauseMode'' \<and> Some (od_verb d) = verb_of ''put'')
     sleepiq_description
   = Some \<lparr>od_path = ''/bed/{bedId}/pauseMode'', od_verb = PUT, od_body = True\<rparr>"
  by (simp add: sleepiq_description_def verb_of_def)

lemma find_bed_get:
  "find (\<lambda>d. od_path d = ''/bed/{bedId}'' \<and> Some (od_verb d) = verb_of ''get'')
     sleepiq_description
   = Some \<lparr>od_path = ''/bed/{bedId}'', od_verb = GET, od_body = False\<rparr>"
  by (simp add: sleepiq_description_def verb_of_def)

text \<open>
  Claim C4. With the engine of the specification bound to the SleepIQ description,
  \<open>setPauseMode({mode: "on"}, {bedId: "123"})\<close> dispatches exactly one request: verb PUT,
  path \<open>/bed/123/pauseMode\<close> (the template \<open>/bed/{bedId}/pauseMode\<close> with \<open>bedId\<close>
  substituted) and body \<open>{mode: "on"}\<close>.
\<close>

theorem setPauseMode_request:
  assumes "es_spec (cores h (core (sdks h this))) = sleepiq_description"
  shows "es_sent (cores (snd (setPauseMode (spec_engine strict net) h this
                                 (JObj [(''mode'', JStr ''on'')])
                                 (JObj [(''bedId'', JStr ''123'')])))
                   (core (sdks h this)))
         = es_sent (cores h (core (sdks h this)))
           @ [\<lparr>rq_verb = PUT, rq_path = ''/bed/123/pauseMode'',
               rq_body = Some (JObj [(''mode'', JStr ''on'')])\<rparr>]"
  using assms
  by (simp add: setPauseMode_def core_fetch_def spec_engine_def spec_fetch_def
      find_pauseMode_put split_args_def placeholders_def Let_def)

text \<open>C4 on the instance that evaluating the module builds.\<close>

theorem setPauseMode_request_witness:
  "es_sent (cores (snd (setPauseMode (spec_engine True ok_net)
                          (snd (createSDK (spec_engine True ok_net) sleepiq_description
                                  (blank_heap [] (new_APICore (spec_engine True ok_net) [] []))))
                          0 (JObj [(''mode'', JStr ''on'')]) (JObj [(''bedId'', JStr ''123'')])))
              1)
   = [\<lparr>rq_verb = PUT, rq_path = ''/bed/123/pauseMode'',
       rq_body = Some (JObj [(''mode'', JStr ''on'')])\<rparr>]"
proof -
  let ?h = "snd (createSDK (spec_engine True ok_net) sleepiq_description
                   (blank_heap [] (new_APICore (spec_engine True ok_net) [] [])))"
  have c: "core (sdks ?h 0) = 1"
    by (simp add: createSDK_def SDK_new_def blank_heap_def)
  have d: "es_spec (cores ?h (core (sdks ?h 0))) = sleepiq_description"
    by (simp add: createSDK_def SDK_new_def blank_heap_def spec_engine_def)
  have e: "es_sent (cores ?h 1) = []"
    by (simp add: createSDK_def SDK_new_def blank_heap_def spec_engine_def)
  show ?thesis
    using setPauseMode_request [OF d, of True ok_net] by (simp only: c e append_Nil)
qed

text \<open>
  Claim C5. With the engine of the specification bound to the SleepIQ description,
  \<open>getBed({bedId: "123"})\<close> dispatches a request with verb GET whose path is exactly
  \<open>/bed/123\<close>: the template \<open>/bed/{bedId}\<close> with the placeholder substituted, and no
  placeholder left in it.
\<close>

theorem getBed_request:
  assumes "es_spec (cores h (core (sdks h this))) = sleepiq_description"
  shows "es_sent (cores (snd (getBed (spec_engine strict net) h this
                                 (JObj [(''bedId'', JStr ''123'')])))
                   (core (sdks h this)))
         = es_sent (cores h (core (sdks h this)))
           @ [\<lparr>rq_verb = GET, rq_path = ''/bed/123'', rq_body = None\<rparr>]
         \<and> placeholders ''/bed/123'' = []"
  using assms
  by (simp add: getBed_def core_fetch_def spec_engine_def spec_fetch_def
      find_bed_get split_args_def placeholders_def Let_def)

text \<open>C5 on the instance that evaluating the module builds.\<close>

theorem getBed_request_witness:
  "es_sent (cores (snd (getBed (spec_engine False ok_net)
                          (snd (createSDK (spec_engine False ok_net) sleepiq_description
                                  (blank_heap [] (new_APICore (spec_engine False ok_net) [] []))))
                          0 (JObj [(''bedId'', JStr ''123'')])))
              1)
   = [\<lparr>rq_verb = GET, rq_path = ''/bed/123'', rq_body = None\<rparr>]"
proof -
  let ?h = "snd (createSDK (spec_engine False ok_net) sleepiq_description
                   (blank_heap [] (new_APICore (spec_engine False ok_net) [] [])))"
  have c: "core (sdks ?h 0) = 1"
    by (simp add: createSDK_def SDK_new_def blank_heap_def)
  have d: "es_spec (cores ?h (core (sdks ?h 0))) = sleepiq_description"
    by (simp add: createSDK_def SDK_new_def blank_heap_def spec_engine_def)
  have e: "es_sent (cores ?h 1) = []"
    by (simp add: createSDK_def SDK_new_def blank_heap_def spec_engine_def)
  show ?thesis
    using getBed_request [OF d, of False ok_net] by (simp only: c e append_Nil)
qed

end
